theory Spec2Isabelle
  imports Complex_Main
begin

section \<open>JavaScript numbers and strings\<close>

text \<open>
  A JavaScript number is modelled as not-a-number, one of the two infinities, or a finite
  value. Finite values are exact reals: rounding of IEEE doubles, overflow to infinity and
  the sign of zero are not represented, so every theorem below is about the exact-arithmetic
  reading of the source. The operations follow the ECMAScript definitions of the operators
  and \<^verbatim>\<open>Math\<close> functions that the source uses.
\<close>

datatype jsnum = NaN | NInf | PInf | Fin real

fun js_isNaN :: "jsnum \<Rightarrow> bool" where
  "js_isNaN NaN = True"
| "js_isNaN _ = False"

fun js_sign :: "jsnum \<Rightarrow> real" where
  "js_sign NaN = 0"
| "js_sign NInf = -1"
| "js_sign PInf = 1"
| "js_sign (Fin x) = sgn x"

definition js_inf :: "real \<Rightarrow> jsnum" where
  "js_inf s = (if s = 0 then NaN else if 0 < s then PInf else NInf)"

fun js_neg :: "jsnum \<Rightarrow> jsnum" where
  "js_neg NaN = NaN"
| "js_neg NInf = PInf"
| "js_neg PInf = NInf"
| "js_neg (Fin x) = Fin (- x)"

fun js_add :: "jsnum \<Rightarrow> jsnum \<Rightarrow> jsnum" where
  "js_add NaN _ = NaN"
| "js_add _ NaN = NaN"
| "js_add (Fin a) (Fin b) = Fin (a + b)"
| "js_add PInf NInf = NaN"
| "js_add NInf PInf = NaN"
| "js_add PInf _ = PInf"
| "js_add _ PInf = PInf"
| "js_add NInf _ = NInf"
| "js_add _ NInf = NInf"

definition js_sub :: "jsnum \<Rightarrow> jsnum \<Rightarrow> jsnum" where
  "js_sub a b = js_add a (js_neg b)"

fun js_mul :: "jsnum \<Rightarrow> jsnum \<Rightarrow> jsnum" where
  "js_mul NaN _ = NaN"
| "js_mul _ NaN = NaN"
| "js_mul (Fin a) (Fin b) = Fin (a * b)"
| "js_mul a b = js_inf (js_sign a * js_sign b)"

text \<open>Division by zero gives an infinity with the sign of the dividend, and \<open>0 / 0\<close> is
  not-a-number (zero is taken as positive zero).\<close>

fun js_div :: "jsnum \<Rightarrow> jsnum \<Rightarrow> jsnum" where
  "js_div NaN _ = NaN"
| "js_div _ NaN = NaN"
| "js_div (Fin a) (Fin b) = (if b = 0 then js_inf (sgn a) else Fin (a / b))"
| "js_div (Fin a) _ = Fin 0"
| "js_div a (Fin b) = js_inf (js_sign a * (if b < 0 then -1 else 1))"
| "js_div _ _ = NaN"

text \<open>\<^verbatim>\<open>x ** n\<close> for a literal exponent \<open>n\<close>; \<^verbatim>\<open>x ** 0\<close> is 1 for every \<open>x\<close>.\<close>

fun js_pow :: "jsnum \<Rightarrow> nat \<Rightarrow> jsnum" where
  "js_pow x 0 = Fin 1"
| "js_pow x (Suc n) = js_mul x (js_pow x n)"

fun js_sqrt :: "jsnum \<Rightarrow> jsnum" where
  "js_sqrt (Fin x) = (if x < 0 then NaN else Fin (sqrt x))"
| "js_sqrt PInf = PInf"
| "js_sqrt _ = NaN"

fun js_atan :: "jsnum \<Rightarrow> jsnum" where
  "js_atan NaN = NaN"
| "js_atan PInf = Fin (pi / 2)"
| "js_atan NInf = Fin (- pi / 2)"
| "js_atan (Fin x) = Fin (arctan x)"

fun js_sin :: "jsnum \<Rightarrow> jsnum" where
  "js_sin (Fin x) = Fin (sin x)"
| "js_sin _ = NaN"

fun js_cos :: "jsnum \<Rightarrow> jsnum" where
  "js_cos (Fin x) = Fin (cos x)"
| "js_cos _ = NaN"

fun js_atanh :: "jsnum \<Rightarrow> jsnum" where
  "js_atanh (Fin x) =
     (if x < -1 \<or> 1 < x then NaN
      else if x = 1 then PInf
      else if x = -1 then NInf
      else Fin (artanh x))"
| "js_atanh _ = NaN"

fun js_abs :: "jsnum \<Rightarrow> jsnum" where
  "js_abs NaN = NaN"
| "js_abs (Fin x) = Fin \<bar>x\<bar>"
| "js_abs _ = PInf"

fun js_lt :: "jsnum \<Rightarrow> jsnum \<Rightarrow> bool" where
  "js_lt NaN _ = False"
| "js_lt _ NaN = False"
| "js_lt (Fin a) (Fin b) = (a < b)"
| "js_lt NInf NInf = False"
| "js_lt NInf _ = True"
| "js_lt PInf _ = False"
| "js_lt (Fin a) PInf = True"
| "js_lt (Fin a) NInf = False"


definition js_pi :: jsnum where
  "js_pi = Fin pi"

fun js_ceil :: "jsnum \<Rightarrow> jsnum" where
  "js_ceil (Fin x) = Fin (of_int \<lceil>x\<rceil>)"
| "js_ceil x = x"


text \<open>The remainder operator \<^verbatim>\<open>%\<close> truncates the quotient towards zero, so the result has
  the sign of the dividend.\<close>

definition trunc :: "real \<Rightarrow> int" where
  "trunc x = (if x < 0 then \<lceil>x\<rceil> else \<lfloor>x\<rfloor>)"

fun js_rem :: "jsnum \<Rightarrow> jsnum \<Rightarrow> jsnum" where
  "js_rem (Fin n) (Fin d) = (if d = 0 then NaN else Fin (n - d * of_int (trunc (n / d))))"
| "js_rem (Fin n) PInf = Fin n"
| "js_rem (Fin n) NInf = Fin n"
| "js_rem _ _ = NaN"


fun js_atan2 :: "jsnum \<Rightarrow> jsnum \<Rightarrow> jsnum" where
  "js_atan2 NaN _ = NaN"
| "js_atan2 _ NaN = NaN"
| "js_atan2 (Fin y) (Fin x) =
     (if 0 < x then Fin (arctan (y / x))
      else if x < 0 then (if 0 \<le> y then Fin (arctan (y / x) + pi) else Fin (arctan (y / x) - pi))
      else if 0 < y then Fin (pi / 2)
      else if y < 0 then Fin (- pi / 2)
      else Fin 0)"
| "js_atan2 (Fin y) PInf = Fin 0"
| "js_atan2 (Fin y) NInf = (if 0 \<le> y then Fin pi else Fin (- pi))"
| "js_atan2 PInf (Fin x) = Fin (pi / 2)"
| "js_atan2 NInf (Fin x) = Fin (- pi / 2)"
| "js_atan2 PInf PInf = Fin (pi / 4)"
| "js_atan2 PInf NInf = Fin (3 * pi / 4)"
| "js_atan2 NInf PInf = Fin (- pi / 4)"
| "js_atan2 NInf NInf = Fin (- 3 * pi / 4)"

text \<open>
  A string is its list of UTF-16 code units. \<open>str\<close> turns a literal into that form.
  \<^verbatim>\<open>toUpperCase\<close> is modelled on the ASCII letters and leaves every other code unit as it is.
\<close>

type_synonym jsstring = "nat list"

definition str :: "string \<Rightarrow> jsstring" where
  "str s = map of_char s"

definition fromCharCode :: "int \<Rightarrow> nat" where
  "fromCharCode n = nat (n mod 65536)"

definition toUpperCase :: "jsstring \<Rightarrow> jsstring" where
  "toUpperCase s = map (\<lambda>c. if 97 \<le> c \<and> c \<le> 122 then c - 32 else c) s"

text \<open>\<^verbatim>\<open>s.split("-")\<close> and \<^verbatim>\<open>parts.join(sep)\<close>.\<close>

fun split_dash :: "jsstring \<Rightarrow> jsstring list" where
  "split_dash [] = [[]]"
| "split_dash (c # cs) =
     (if c = 45 then [] # split_dash cs
      else (c # hd (split_dash cs)) # tl (split_dash cs))"

fun join :: "jsstring \<Rightarrow> jsstring list \<Rightarrow> jsstring" where
  "join sep [] = []"
| "join sep [p] = p"
| "join sep (p # q # ps) = p @ sep @ join sep (q # ps)"

text \<open>
  Conversion of an integer to its decimal string, as string concatenation and template
  literals do (for magnitudes below \<open>10\<^sup>2\<^sup>1\<close>, where no exponent is printed).
\<close>

fun digits_of :: "nat \<Rightarrow> jsstring" where
  "digits_of n = (if n < 10 then [48 + n] else digits_of (n div 10) @ [48 + n mod 10])"

declare digits_of.simps [simp del]

definition int_to_string :: "int \<Rightarrow> jsstring" where
  "int_to_string i = (if i < 0 then 45 # digits_of (nat (- i)) else digits_of (nat i))"

text \<open>
  \<^verbatim>\<open>Number(s)\<close>: white space is trimmed, the empty string is 0, and a decimal literal with an
  optional sign and an optional fraction is its value. Exponents, radix prefixes and
  \<^verbatim>\<open>Infinity\<close> need three code units or more, and the decoder only converts strings of at most
  two; on longer strings of those forms the model answers not-a-number.
\<close>

definition is_ws :: "nat \<Rightarrow> bool" where
  "is_ws c = (c \<in> {9, 10, 11, 12, 13, 32, 160, 5760, 8232, 8233, 8239, 8287, 12288, 65279}
              \<or> (8192 \<le> c \<and> c \<le> 8202))"

definition is_digit :: "nat \<Rightarrow> bool" where
  "is_digit c = (48 \<le> c \<and> c \<le> 57)"

definition trim :: "jsstring \<Rightarrow> jsstring" where
  "trim s = rev (dropWhile is_ws (rev (dropWhile is_ws s)))"

definition dec_value :: "jsstring \<Rightarrow> nat" where
  "dec_value ds = foldl (\<lambda>acc c. 10 * acc + (c - 48)) 0 ds"

definition parse_unsigned :: "jsstring \<Rightarrow> real option" where
  "parse_unsigned s =
     (let ip = takeWhile is_digit s; rest = dropWhile is_digit s
      in case rest of
           [] \<Rightarrow> (if ip = [] then None else Some (real (dec_value ip)))
         | c # fp \<Rightarrow>
             (if c = 46 \<and> list_all is_digit fp \<and> 0 < length ip + length fp
              then Some (real (dec_value ip) + real (dec_value fp) / 10 ^ length fp)
              else None))"

definition js_Number :: "jsstring \<Rightarrow> jsnum" where
  "js_Number s =
     (case trim s of
        [] \<Rightarrow> Fin 0
      | c # r \<Rightarrow>
          (if c = 43 then (case parse_unsigned r of None \<Rightarrow> NaN | Some v \<Rightarrow> Fin v)
           else if c = 45 then (case parse_unsigned r of None \<Rightarrow> NaN | Some v \<Rightarrow> Fin (- v))
           else (case parse_unsigned (c # r) of None \<Rightarrow> NaN | Some v \<Rightarrow> Fin v)))"

text \<open>A value that may be undefined, a number or a string; \<open>falsy\<close> is what \<^verbatim>\<open>!v\<close> tests.\<close>

datatype jsval = JUndefined | JNum jsnum | JStr jsstring

fun falsy :: "jsval \<Rightarrow> bool" where
  "falsy JUndefined = True"
| "falsy (JNum NaN) = True"
| "falsy (JNum (Fin x)) = (x = 0)"
| "falsy (JNum _) = False"
| "falsy (JStr s) = (s = [])"

section \<open>Ambient configuration\<close>

text \<open>
  The weapon table lives in a module that is not part of the sources at hand; the fields
  and the two methods that the solver reads are taken as parameters.
  \<open>minElevation1\<close> is \<^verbatim>\<open>minElevation[1]\<close>.
\<close>

record weapon =
  name :: jsstring
  unit :: jsstring
  gravityScale :: jsnum
  getVelocity :: "jsnum \<Rightarrow> jsnum"
  getAngleType :: jsnum
  moa :: jsnum
  minElevation1 :: jsnum

text \<open>
  An entry of the map table (also kept in a module outside the sources at hand), with the
  attributes the height lookup reads; \<open>offset0\<close> and \<open>offset1\<close> are
  \<^verbatim>\<open>offset[0]\<close> and \<^verbatim>\<open>offset[1]\<close>.
\<close>

record map_entry =
  size :: jsnum
  offset0 :: jsnum
  offset1 :: jsnum
  scaling :: jsnum

text \<open>The four channels of one canvas pixel, as \<^verbatim>\<open>getImageData(x, y, 1, 1).data\<close> returns them.\<close>

type_synonym rgba = "nat \<times> nat \<times> nat \<times> nat"

text \<open>
  The ambient state: \<^verbatim>\<open>globalData\<close> (gravity, active weapon, active map, canvas size, the
  zoom of the minimap), the \<^verbatim>\<open>MAPS\<close> table and the pixel reader of the heightmap canvas.
  The debug flag is taken to be off; it only adds console output and marker drawing.
\<close>

record env =
  gravity :: jsnum
  activeWeapon :: weapon
  activeMap :: jsval
  canvas_size :: jsnum
  getZoom :: jsval
  MAPS :: "map_entry list"
  getImageData :: "jsnum \<Rightarrow> jsnum \<Rightarrow> rgba"

section \<open>Unit conversion\<close>

definition degToRad :: "jsnum \<Rightarrow> jsnum" where
  "degToRad deg = js_div (js_mul deg js_pi) (Fin 180)"




section \<open>Ballistic solver\<close>

definition getElevation :: "env \<Rightarrow> jsnum \<Rightarrow> jsnum \<Rightarrow> jsnum \<Rightarrow> jsnum" where
  "getElevation g distance vDelta vel =
     (let gravity' = js_mul (gravity g) (gravityScale (activeWeapon g));
          P1 = js_sqrt (js_sub (js_pow vel 4)
                 (js_mul gravity'
                    (js_add (js_mul gravity' (js_pow distance 2))
                            (js_mul (js_mul (Fin 2) vDelta) (js_pow vel 2)))))
      in js_atan (js_div (js_sub (js_pow vel 2) (js_mul P1 (getAngleType (activeWeapon g))))
                         (js_mul gravity' distance)))"

definition getVerticalSpread :: "env \<Rightarrow> jsnum \<Rightarrow> jsnum \<Rightarrow> jsnum" where
  "getVerticalSpread g angle vel =
     (let moa' = degToRad (js_div (js_div (moa (activeWeapon g)) (Fin 2)) (Fin 60));
          gravity' = js_mul (gravity g) (gravityScale (activeWeapon g));
          verticalSpread1 =
            js_div (js_mul (js_pow vel 2) (js_sin (js_mul (Fin 2) (js_add angle moa')))) gravity';
          verticalSpread2 =
            js_div (js_mul (js_pow vel 2) (js_sin (js_mul (Fin 2) (js_sub angle moa')))) gravity';
          totalSpread = js_abs (js_sub verticalSpread2 verticalSpread1)
      in if js_isNaN totalSpread then Fin 0 else totalSpread)"

definition getProjectilePathDistance :: "jsnum \<Rightarrow> jsnum \<Rightarrow> jsnum \<Rightarrow> jsnum" where
  "getProjectilePathDistance angle velocity gravity' =
     (let p1 = js_div (js_pow velocity 2) gravity';
          p2 = js_add (js_sin angle)
                 (js_mul (js_pow (js_cos angle) 2) (js_atanh (js_sin angle)))
      in js_abs (js_mul p1 p2))"

definition getHorizontalSpread :: "env \<Rightarrow> jsnum \<Rightarrow> jsnum \<Rightarrow> jsnum \<Rightarrow> jsnum" where
  "getHorizontalSpread g angle velocity gravity' =
     (let MOA = js_div (moa (activeWeapon g)) (Fin 60);
          p1 = js_mul (js_mul (Fin 2) js_pi) (getProjectilePathDistance angle velocity gravity');
          p2 = js_mul (js_div MOA (Fin 360)) p1
      in if js_isNaN p2 then Fin 0 else p2)"

record ellipse =
  semiMajorAxis :: jsnum
  semiMinorAxis :: jsnum
  ellipseAngle :: jsnum

record elevation_result =
  elevationAngle :: jsnum
  ellipseParams :: ellipse

definition getElevationWithEllipseParams ::
  "env \<Rightarrow> jsnum \<Rightarrow> jsnum \<Rightarrow> jsnum \<Rightarrow> elevation_result" where
  "getElevationWithEllipseParams g distance vDelta vel =
     (let gravity' = js_mul (gravity g) (gravityScale (activeWeapon g));
          P1 = js_sqrt (js_sub (js_pow vel 4)
                 (js_mul gravity'
                    (js_add (js_mul gravity' (js_pow distance 2))
                            (js_mul (js_mul (Fin 2) vDelta) (js_pow vel 2)))));
          angle = js_atan (js_div (js_sub (js_pow vel 2)
                                     (js_mul P1 (getAngleType (activeWeapon g))))
                                  (js_mul gravity' distance));
          ellipseParams' =
            (if moa (activeWeapon g) \<noteq> Fin 0
             then \<lparr> semiMajorAxis = getHorizontalSpread g angle vel gravity',
                    semiMinorAxis = getVerticalSpread g angle vel,
                    ellipseAngle = js_mul angle (js_div (Fin 180) js_pi) \<rparr>
             else \<lparr> semiMajorAxis = Fin 0, semiMinorAxis = Fin 0, ellipseAngle = Fin 0 \<rparr>)
      in \<lparr> elevationAngle = angle, ellipseParams = ellipseParams' \<rparr>)"

section \<open>Keypad codec\<close>

record latlng =
  lat :: jsnum
  lng :: jsnum

datatype error = TypeError

text \<open>
  \<^verbatim>\<open>formatKeyPad\<close> returns \<^verbatim>\<open>undefined\<close> (here \<open>None\<close>) on the empty string. Its loop pushes
  the code units from index 3 on, one part each.
\<close>

fun sub_keypads :: "jsstring \<Rightarrow> jsstring list" where
  "sub_keypads [] = []"
| "sub_keypads (c # cs) = [c] # sub_keypads cs"

definition formatKeyPad :: "jsstring \<Rightarrow> jsstring option" where
  "formatKeyPad text =
     (if length text = 0 then None
      else let TEXTND = join [] (split_dash (toUpperCase text));
               TEXTPARTS = take 3 TEXTND # sub_keypads (drop 3 TEXTND)
           in Some (join (str ''-'') TEXTPARTS))"

definition charCodeAt0 :: "jsstring \<Rightarrow> jsnum" where
  "charCodeAt0 s = (case s of [] \<Rightarrow> NaN | c # _ \<Rightarrow> Fin (real c))"

text \<open>\<^verbatim>\<open>300 / 3 ** k\<close>; the exponent is \<open>-1\<close> when the loop below has not run at all.\<close>

definition interval_at :: "int \<Rightarrow> jsnum" where
  "interval_at k = Fin (300 / 3 powi k)"

text \<open>
  The loop of \<^verbatim>\<open>getPos\<close> over \<^verbatim>\<open>PARTS\<close>: \<open>i\<close> is the loop index, the list holds the parts
  from index \<open>i\<close> on, and \<open>lat'\<close>, \<open>lng'\<close> are the two accumulators. The code after the loop
  is the equation for the empty list.
\<close>

fun getPos_loop :: "nat \<Rightarrow> jsstring list \<Rightarrow> jsnum \<Rightarrow> jsnum \<Rightarrow> latlng" where
  "getPos_loop i [] lat' lng' =
     (let interval = interval_at (int i - 1)
      in \<lparr> lat = js_add lat' (js_div interval (Fin 2)),
           lng = js_add lng' (js_div interval (Fin 2)) \<rparr>)"
| "getPos_loop i (part # rest) lat' lng' =
     (if i = 0 then
        (let LETTERCODE = charCodeAt0 part;
             LETTERINDEX = js_sub LETTERCODE (Fin 65)
         in if js_lt (charCodeAt0 part) (Fin 65) then \<lparr> lat = NaN, lng = NaN \<rparr>
            else let KEYPADNB = js_sub (js_Number (drop 1 part)) (Fin 1)
                 in getPos_loop (i + 1) rest
                      (js_add lat' (js_mul (Fin 300) LETTERINDEX))
                      (js_add lng' (js_mul (Fin 300) KEYPADNB)))
      else
        (let SUB = js_Number part;
             subX = js_rem (js_sub SUB (Fin 1)) (Fin 3);
             subY = js_sub (Fin 2) (js_sub (js_ceil (js_div SUB (Fin 3))) (Fin 1));
             interval = interval_at (int i)
         in getPos_loop (i + 1) rest
              (js_add lat' (js_mul interval subX))
              (js_add lng' (js_mul interval subY))))"

text \<open>Calling \<^verbatim>\<open>split\<close> on \<^verbatim>\<open>undefined\<close> raises a \<^verbatim>\<open>TypeError\<close>.\<close>

definition getPos :: "jsstring \<Rightarrow> error + latlng" where
  "getPos kp =
     (case formatKeyPad kp of
        None \<Rightarrow> Inl TypeError
      | Some FORMATTED_KEYPAD \<Rightarrow> Inr (getPos_loop 0 (split_dash FORMATTED_KEYPAD) (Fin 0) (Fin 0)))"

text \<open>\<^verbatim>\<open>%\<close> on integers, and \<^verbatim>\<open>pad\<close>: \<^verbatim>\<open>substr(-size)\<close> keeps the last \<open>size\<close> code units.\<close>

definition int_rem :: "int \<Rightarrow> int \<Rightarrow> int" where
  "int_rem a b = sgn a * (\<bar>a\<bar> mod \<bar>b\<bar>)"

definition pad :: "int \<Rightarrow> nat \<Rightarrow> jsstring" where
  "pad num sz = (let s = str ''0000'' @ int_to_string num in drop (length s - sz) s)"

text \<open>
  \<^verbatim>\<open>getKP(lat, lng, precision)\<close> for finite coordinates; the first argument is the ambient
  state, of which the zoom is read when \<^verbatim>\<open>!precision\<close> holds.
\<close>

definition getKP :: "env \<Rightarrow> real \<Rightarrow> real \<Rightarrow> jsval \<Rightarrow> jsstring" where
  "getKP g lat' lng' precision =
     (let x = lng'; y = lat' in
      if x < 0 \<or> y < 0 then str ''XXX-X-X''
      else
        let kp = 300 / 3 ^ 0;
            s1 = 300 / 3 ^ 1;
            s2 = 300 / 3 ^ 2;
            s3 = 300 / 3 ^ 3;
            s4 = 300 / 3 ^ 4;
            kpCharCode = 65 + \<lfloor>x / kp\<rfloor>;
            kpLetter = (if kpCharCode > 90 then [fromCharCode (kpCharCode + 6)]
                        else [fromCharCode kpCharCode]);
            kpNumber = \<lfloor>y / kp\<rfloor> + 1;
            subY = int_rem \<lfloor>y / s1\<rfloor> 3;
            subNumber = 10 - (subY + 1) * 3 + int_rem \<lfloor>x / s1\<rfloor> 3;
            sub2Y = int_rem \<lfloor>y / s2\<rfloor> 3;
            sub2Number = 10 - (sub2Y + 1) * 3 + int_rem \<lfloor>x / s2\<rfloor> 3;
            sub3Y = int_rem \<lfloor>y / s3\<rfloor> 3;
            sub3Number = 10 - (sub3Y + 1) * 3 + int_rem \<lfloor>x / s3\<rfloor> 3;
            sub4Y = int_rem \<lfloor>y / s4\<rfloor> 3;
            sub4Number = 10 - (sub4Y + 1) * 3 + int_rem \<lfloor>x / s4\<rfloor> 3;
            precision' = (if falsy precision then getZoom g else precision);
            macro = kpLetter @ pad kpNumber 2;
            dash = str ''-''
        in if precision' = JNum (Fin 0) then macro
           else if precision' = JNum (Fin 1) then macro
           else if precision' = JNum (Fin 2) then macro
           else if precision' = JNum (Fin 3) then macro @ dash @ int_to_string subNumber
           else if precision' = JNum (Fin 4) then
             macro @ dash @ int_to_string subNumber @ dash @ int_to_string sub2Number
           else if precision' = JNum (Fin 5) then
             macro @ dash @ int_to_string subNumber @ dash @ int_to_string sub2Number
               @ dash @ int_to_string sub3Number
           else
             macro @ dash @ int_to_string subNumber @ dash @ int_to_string sub2Number
               @ dash @ int_to_string sub3Number @ dash @ int_to_string sub4Number)"

section \<open>Geometry\<close>

definition getBearing :: "latlng \<Rightarrow> latlng \<Rightarrow> jsnum" where
  "getBearing a b =
     (let bearing = js_add (js_div (js_mul (js_atan2 (js_sub (lng b) (lng a))
                                                      (js_sub (lat b) (lat a)))
                                            (Fin 180)) js_pi) (Fin 90)
      in if js_lt bearing (Fin 0) then js_add bearing (Fin 360) else bearing)"


section \<open>Height lookup\<close>







section \<open>The solve operation\<close>






section \<open>Auxiliary notions for the codec properties\<close>





text \<open>
  A sample configuration for evaluating the operations on concrete inputs: a mortar-like
  weapon with a constant muzzle velocity, angles shown in mils, no map selected and the
  minimap at zoom 5.
\<close>

definition example_env :: env where
  "example_env =
     \<lparr> gravity = Fin (98 / 10),
       activeWeapon = \<lparr> name = str ''mortar'', unit = str ''mil'', gravityScale = Fin 1,
                        getVelocity = (\<lambda>d. Fin 110), getAngleType = Fin (- 1),
                        moa = Fin 50, minElevation1 = Fin 1580 \<rparr>,
       activeMap = JUndefined, canvas_size = Fin 500, getZoom = JNum (Fin 5), MAPS = [],
       getImageData = (\<lambda>x y. (0, 0, 0, 0)) \<rparr>"

section \<open>Lemmas on strings and number parsing\<close>





















section \<open>Lemmas on the encoder and the decoder loop\<close>




















section \<open>Keypad codec: properties\<close>




text \<open>
  C4 (amended). At the top-left corner, precision 5 gives the macro cell and three
  sub-digits, \<^verbatim>\<open>A01-7-7-7\<close>; the string with four sub-digits, \<^verbatim>\<open>A01-7-7-7-7\<close>, is what
  precision 6 gives.
\<close>

theorem getKP_origin_precision_5:
  "getKP g 0 0 (JNum (Fin 5)) = str ''A01-7-7-7''
   \<and> getKP g 0 0 (JNum (Fin 6)) = str ''A01-7-7-7-7''"
  by (simp add: getKP_def str_def fromCharCode_def pad_def int_to_string_def digits_of.simps
      int_rem_def Let_def)

theorem getKP_origin_precision_5_witness:
  "getKP example_env 0 0 (JNum (Fin 5)) = str ''A01-7-7-7''"
  using getKP_origin_precision_5 [of example_env] by simp

theorem getKP_origin_precision_5_not_four_digits:
  "getKP example_env 0 0 (JNum (Fin 5)) \<noteq> str ''A01-7-7-7-7''"
  by (simp add: getKP_def str_def fromCharCode_def pad_def int_to_string_def digits_of.simps
      int_rem_def Let_def)

text \<open>
  C6 (amended). \<^verbatim>\<open>formatKeyPad\<close> returns \<^verbatim>\<open>undefined\<close> on the empty string and does not
  raise; \<^verbatim>\<open>getPos\<close> on the empty string raises a \<^verbatim>\<open>TypeError\<close>, because it calls
  \<^verbatim>\<open>split\<close> on that value; on every non-empty string \<^verbatim>\<open>getPos\<close> returns a position.
\<close>

theorem decode_empty_keypad:
  "formatKeyPad [] = None \<and> getPos [] = Inl TypeError
   \<and> (kp \<noteq> [] \<longrightarrow> (\<exists>p. getPos kp = Inr p))"
  by (simp add: getPos_def formatKeyPad_def Let_def)

theorem decode_empty_keypad_witness:
  "str ''A01'' \<noteq> [] \<and> (\<exists>p. getPos (str ''A01'') = Inr p)"
  using decode_empty_keypad [of "str ''A01''"] by (simp add: str_def)

theorem getPos_empty_raises: "getPos [] = Inl TypeError"
  by (simp add: getPos_def formatKeyPad_def)

text \<open>
  C7. For a point inside the lower bounds whose macro column index \<open>\<lfloor>x / 300\<rfloor>\<close> is 26 or
  more, the first code unit of the keypad string is
  \<^verbatim>\<open>String.fromCharCode(65 + Math.floor(x / 300) + 6)\<close>, whatever the precision and the zoom;
  at index 26 this is the letter \<^verbatim>\<open>a\<close>.
\<close>

theorem getKP_letter_wrap:
  assumes "0 \<le> lat'" and "26 \<le> \<lfloor>lng' / 300\<rfloor>"
  shows "hd (getKP g lat' lng' p) = fromCharCode (65 + \<lfloor>lng' / 300\<rfloor> + 6)"
proof -
  have "0 \<le> lng'" using assms(2) by (simp add: le_floor_iff)
  then have nb: "\<not> (lng' < 0 \<or> lat' < 0)" using assms(1) by simp
  show ?thesis using assms(2) nb
    by (simp add: getKP_def Let_def)
qed

theorem getKP_letter_wrap_witness:
  "(0::real) \<le> 0 \<and> 26 \<le> \<lfloor>(7800::real) / 300\<rfloor>
   \<and> hd (getKP example_env 0 7800 (JNum (Fin 3))) = of_char CHR ''a''"
  using getKP_letter_wrap [of 0 7800 example_env "JNum (Fin 3)"]
  by (simp add: fromCharCode_def)

text \<open>
  C8. With the precision passed explicitly as 0 the test \<^verbatim>\<open>!precision\<close> succeeds and the
  zoom of the minimap replaces it: at zoom 5 the top-left corner is encoded with three
  sub-digits instead of the macro cell alone.
\<close>

theorem getKP_precision_0_reads_zoom:
  "getZoom example_env = JNum (Fin 5)
   \<and> getKP example_env 0 0 (JNum (Fin 0)) = str ''A01-7-7-7''"
  by (simp add: getKP_def str_def fromCharCode_def pad_def int_to_string_def digits_of.simps
      int_rem_def Let_def example_env_def)

text \<open>Precisions 1 and 2, in contrast, do not read the zoom and give the macro cell only.\<close>

lemma getKP_precision_1_2:
  assumes "0 \<le> lat'" and "0 \<le> lng'" and "p = 1 \<or> p = 2"
  shows "getKP g lat' lng' (JNum (Fin p)) =
         (if 65 + \<lfloor>lng' / 300\<rfloor> > 90 then [fromCharCode (65 + \<lfloor>lng' / 300\<rfloor> + 6)]
          else [fromCharCode (65 + \<lfloor>lng' / 300\<rfloor>)]) @ pad (\<lfloor>lat' / 300\<rfloor> + 1) 2"
proof -
  have nb: "\<not> (lng' < 0 \<or> lat' < 0)" using assms(1,2) by simp
  show ?thesis using assms(3) nb
    by (auto simp: getKP_def Let_def)
qed

section \<open>Geometry: properties\<close>

text \<open>
  For finite coordinates the bearing is a finite number of degrees in \<open>[0, 360)\<close>: the
  angle of \<^verbatim>\<open>atan2\<close> lies in \<open>(-\<pi>, \<pi>]\<close>, and a negative sum is raised by a full turn.
\<close>

lemma js_atan2_range:
  "case js_atan2 (Fin y) (Fin x) of Fin th \<Rightarrow> - pi < th \<and> th \<le> pi | _ \<Rightarrow> False"
proof -
  have ph: "- pi < - (pi / 2)" "pi / 2 \<le> pi" "- pi < pi / 2" "- (pi / 2) \<le> pi"
    using pi_gt_zero by linarith+
  have b: "- (pi / 2) < arctan (y / x)" "arctan (y / x) < pi / 2"
    by (rule arctan_lbound, rule arctan_ubound)
  consider "0 < x" | "x < 0" "0 \<le> y" | "x < 0" "y < 0" | "x = 0"
    by linarith
  then show ?thesis
  proof cases
    case 1
    then show ?thesis using b pi_gt_zero by simp
  next
    case 2
    then have "y / x \<le> 0" by (simp add: divide_nonneg_neg)
    then have "arctan (y / x) \<le> 0" by (simp add: arctan_le_zero_iff)
    then show ?thesis using 2 b pi_gt_zero by simp
  next
    case 3
    then have "0 < y / x" by (simp add: divide_neg_neg)
    then have "0 < arctan (y / x)" by (simp add: zero_less_arctan_iff)
    then show ?thesis using 3 b pi_gt_zero by simp
  next
    case 4
    then show ?thesis using pi_gt_zero ph by simp
  qed
qed

lemma getBearing_range:
  "\<exists>r. getBearing \<lparr> lat = Fin ax, lng = Fin ay \<rparr> \<lparr> lat = Fin bx, lng = Fin by' \<rparr> = Fin r
       \<and> 0 \<le> r \<and> r < 360"
proof -
  obtain th where th: "js_atan2 (Fin (by' - ay)) (Fin (bx - ax)) = Fin th"
    and lo: "- pi < th" and hi: "th \<le> pi"
    using js_atan2_range [of "by' - ay" "bx - ax"]
    by (cases "js_atan2 (Fin (by' - ay)) (Fin (bx - ax))") simp_all
  define u where "u = th * 180 / pi"
  have "- pi * 180 / pi < th * 180 / pi"
    using lo pi_gt_zero by (intro divide_strict_right_mono) simp_all
  then have ul: "- 180 < u" by (simp add: u_def)
  have "th * 180 / pi \<le> pi * 180 / pi"
    using hi pi_gt_zero by (intro divide_right_mono) simp_all
  then have uh: "u \<le> 180" by (simp add: u_def)
  have pz: "pi \<noteq> 0" by simp
  have "getBearing \<lparr> lat = Fin ax, lng = Fin ay \<rparr> \<lparr> lat = Fin bx, lng = Fin by' \<rparr> =
        (if u + 90 < 0 then Fin (u + 90 + 360) else Fin (u + 90))"
    using pz by (simp add: getBearing_def js_sub_def js_pi_def th u_def Let_def
        del: js_atan2.simps)
  then show ?thesis using ul uh by auto
qed

text \<open>
  C5 (amended). In the formula the vertical difference (\<^verbatim>\<open>lng\<close>, the \<open>y\<close> of the bearing
  formula) is the first argument of \<^verbatim>\<open>atan2\<close>. The bearing from the origin to the point
  displaced by 100 on that axis is 180 degrees, and to the point displaced by 100 on the
  horizontal axis (\<^verbatim>\<open>lat\<close>, the \<open>x\<close> of the formula) it is 90 degrees; both lie in
  \<open>[0, 360)\<close>.
\<close>

theorem getBearing_axis_aligned:
  "getBearing \<lparr> lat = Fin 0, lng = Fin 0 \<rparr> \<lparr> lat = Fin 0, lng = Fin 100 \<rparr> = Fin 180
   \<and> getBearing \<lparr> lat = Fin 0, lng = Fin 0 \<rparr> \<lparr> lat = Fin 100, lng = Fin 0 \<rparr> = Fin 90
   \<and> \<not> js_lt (getBearing \<lparr> lat = Fin 0, lng = Fin 0 \<rparr> \<lparr> lat = Fin 0, lng = Fin 100 \<rparr>) (Fin 0)
   \<and> js_lt (getBearing \<lparr> lat = Fin 0, lng = Fin 0 \<rparr> \<lparr> lat = Fin 0, lng = Fin 100 \<rparr>) (Fin 360)
   \<and> \<not> js_lt (getBearing \<lparr> lat = Fin 0, lng = Fin 0 \<rparr> \<lparr> lat = Fin 100, lng = Fin 0 \<rparr>) (Fin 0)
   \<and> js_lt (getBearing \<lparr> lat = Fin 0, lng = Fin 0 \<rparr> \<lparr> lat = Fin 100, lng = Fin 0 \<rparr>) (Fin 360)"
  by (simp add: getBearing_def js_sub_def js_pi_def)

theorem getBearing_axis_values_swapped:
  "getBearing \<lparr> lat = Fin 0, lng = Fin 0 \<rparr> \<lparr> lat = Fin 0, lng = Fin 100 \<rparr> \<noteq> Fin 90
   \<and> getBearing \<lparr> lat = Fin 0, lng = Fin 0 \<rparr> \<lparr> lat = Fin 100, lng = Fin 0 \<rparr> \<noteq> Fin 180"
  by (simp add: getBearing_def js_sub_def js_pi_def)

section \<open>Ballistic solver: properties\<close>



text \<open>
  C9. Under the same ambient configuration and for the same three arguments, the
  \<^verbatim>\<open>elevationAngle\<close> field of \<^verbatim>\<open>getElevationWithEllipseParams\<close> is the result of
  \<^verbatim>\<open>getElevation\<close>, not-a-number included.
\<close>

theorem elevation_solvers_agree:
  "elevationAngle (getElevationWithEllipseParams g distance vDelta vel) =
   getElevation g distance vDelta vel"
  by (simp add: getElevationWithEllipseParams_def getElevation_def Let_def)

theorem elevation_solvers_agree_witness:
  "elevationAngle (getElevationWithEllipseParams example_env (Fin 2000) (Fin 0) (Fin 110)) =
   getElevation example_env (Fin 2000) (Fin 0) (Fin 110)"
  by (rule elevation_solvers_agree)

section \<open>Height lookup: properties\<close>



section \<open>The solve operation: properties\<close>




end
